theory Spec2Isabelle
  imports Complex_Main "HOL-Library.Sublist"
begin

section \<open>Data model (types/index.ts)\<close>

datatype kind = Lost | Found

datatype status = Active | Claimed | Resolved

text \<open>
  A JavaScript \<open>Date\<close> built by \<open>new Date(s)\<close> is kept symbolically: it is
  determined by the string it was parsed from.
\<close>

datatype jsDate = NewDate string

text \<open>\<open>interface LostFoundItem\<close>; \<open>imageUrl?\<close> is \<open>None\<close> when undefined.\<close>

record LostFoundItem =
  itemId :: string
  itemType :: kind
  title :: string
  description :: string
  location :: string
  contactInfo :: string
  imageUrl :: "string option"
  createdAt :: jsDate
  updatedAt :: jsDate
  status :: status

text \<open>
  \<open>Partial<LostFoundItem>\<close>, restricted to the fields \<open>itemToRow\<close> reads:
  \<open>None\<close> is a property that is undefined.
\<close>

record PartialItem =
  pType :: "kind option"
  pTitle :: "string option"
  pDescription :: "string option"
  pLocation :: "string option"
  pContactInfo :: "string option"
  pImageUrl :: "string option"
  pStatus :: "status option"

definition noFields :: PartialItem where
  "noFields = \<lparr> pType = None, pTitle = None, pDescription = None, pLocation = None,
     pContactInfo = None, pImageUrl = None, pStatus = None \<rparr>"

section \<open>Persistence client (services/supabase.ts)\<close>

text \<open>
  A row of table \<open>lost_found_items\<close> as a select returns it. The columns
  \<open>image_url\<close> and \<open>status\<close> may hold null (\<open>None\<close>); the timestamps are the
  strings of the wire format.
\<close>

record StoredRow =
  row_id :: string
  row_type :: kind
  row_title :: string
  row_description :: string
  row_location :: string
  contact_info :: string
  image_url :: "string option"
  row_status :: "status option"
  created_at :: string
  updated_at :: string

text \<open>
  \<open>rowToItem\<close>. In \<open>row.image_url || undefined\<close> the empty string is falsy, like null.
  The three status strings are non-empty, hence truthy.
\<close>

definition rowToItem :: "StoredRow \<Rightarrow> LostFoundItem" where
  "rowToItem row = \<lparr>
     itemId = row_id row,
     itemType = row_type row,
     title = row_title row,
     description = row_description row,
     location = row_location row,
     contactInfo = contact_info row,
     imageUrl = (case image_url row of None \<Rightarrow> None
                 | Some u \<Rightarrow> if u = [] then None else Some u),
     createdAt = NewDate (created_at row),
     updatedAt = NewDate (updated_at row),
     status = (case row_status row of None \<Rightarrow> Active | Some s \<Rightarrow> s) \<rparr>"

text \<open>
  A nullable column of the object handed to insert or update: a property that is
  undefined is dropped when the request body is serialised (\<open>Omitted\<close>), null is
  sent as null, anything else as it is.
\<close>

datatype 'a field = Omitted | Null | Val 'a

text \<open>
  The object \<open>itemToRow\<close> builds, with the \<open>updated_at\<close> that update adds. The
  five columns it copies from the item are undefined, hence dropped (\<open>None\<close>), or a
  value; \<open>image_url\<close> and \<open>status\<close> can also be null.
\<close>

record SentRow =
  s_type :: "kind option"
  s_title :: "string option"
  s_description :: "string option"
  s_location :: "string option"
  s_contact_info :: "string option"
  s_image_url :: "string field"
  s_status :: "status field"
  s_updated_at :: "string option"

text \<open>
  \<open>itemToRow\<close>: \<open>item.imageUrl || null\<close> and \<open>item.status || 'active'\<close> give a
  value to both columns whether or not the caller supplied the field.
\<close>

definition itemToRow :: "PartialItem \<Rightarrow> SentRow" where
  "itemToRow item = \<lparr>
     s_type = pType item,
     s_title = pTitle item,
     s_description = pDescription item,
     s_location = pLocation item,
     s_contact_info = pContactInfo item,
     s_image_url = (case pImageUrl item of None \<Rightarrow> Null
                    | Some u \<Rightarrow> if u = [] then Null else Val u),
     s_status = (case pStatus item of None \<Rightarrow> Val Active | Some s \<Rightarrow> Val s),
     s_updated_at = None \<rparr>"

record config =
  SUPABASE_URL :: string
  SUPABASE_ANON_KEY :: string

text \<open>\<open>!SUPABASE_URL || !SUPABASE_ANON_KEY\<close> is the negation of this.\<close>

definition configured :: "config \<Rightarrow> bool" where
  "configured cfg = (SUPABASE_URL cfg \<noteq> [] \<and> SUPABASE_ANON_KEY cfg \<noteq> [])"

text \<open>
  \<open>createClient\<close> of the client library: its constructor throws for an empty URL and
  for an empty key.
\<close>

definition createClient :: "string \<Rightarrow> string \<Rightarrow> string + unit" where
  "createClient supabaseUrl supabaseKey =
     (if supabaseUrl = [] then Inl ''supabaseUrl is required.''
      else if supabaseKey = [] then Inl ''supabaseKey is required.''
      else Inr ())"

text \<open>
  The body of the module, run when it is loaded: the warning for a missing
  configuration only logs, then \<open>export const supabase = createClient(...)\<close> is
  evaluated whatever the configuration is. What it throws, the load of the module
  throws, and no function of the module can be called.
\<close>

definition supabase_module :: "config \<Rightarrow> string + unit" where
  "supabase_module cfg = createClient (SUPABASE_URL cfg) (SUPABASE_ANON_KEY cfg)"

text \<open>
  What awaiting a query of the client gives: the promise rejects (a transport failure,
  an exception of the client), or it resolves to \<open>{ data, error }\<close>, each possibly null.
\<close>

datatype 'a response = Throws string | Returns "'a option" "string option"

text \<open>
  Each read function is a \<open>try\<close> block and its \<open>catch\<close>. The block is modelled as it
  is written, \<open>Inl\<close> being an exception that leaves it. A call of the function is the
  load of its module, then the block, then the \<open>catch\<close> applied to what the block
  throws; \<open>Inl\<close> is what the caller gets in place of a value.
\<close>

definition getLostFoundItems_try ::
    "config \<Rightarrow> StoredRow list response \<Rightarrow> string + LostFoundItem list" where
  "getLostFoundItems_try cfg resp =
     (if \<not> configured cfg then Inr []
      else case resp of
        Throws e \<Rightarrow> Inl e
      | Returns data err \<Rightarrow>
          (case err of
             Some _ \<Rightarrow> Inr []
           | None \<Rightarrow> Inr (map rowToItem (case data of None \<Rightarrow> [] | Some rows \<Rightarrow> rows))))"

definition getLostFoundItems ::
    "config \<Rightarrow> StoredRow list response \<Rightarrow> string + LostFoundItem list" where
  "getLostFoundItems cfg resp =
     (case supabase_module cfg of
        Inl e \<Rightarrow> Inl e
      | Inr _ \<Rightarrow>
          (case getLostFoundItems_try cfg resp of Inl _ \<Rightarrow> Inr [] | Inr items \<Rightarrow> Inr items))"

text \<open>
  \<open>getLostFoundItemsByType\<close>: the comparison \<open>.eq('type', type)\<close> is evaluated by the
  backend; \<open>resp\<close> is its answer to that query.
\<close>

definition getLostFoundItemsByType_try ::
    "config \<Rightarrow> kind \<Rightarrow> StoredRow list response \<Rightarrow> string + LostFoundItem list" where
  "getLostFoundItemsByType_try cfg k resp =
     (if \<not> configured cfg then Inr []
      else case resp of
        Throws e \<Rightarrow> Inl e
      | Returns data err \<Rightarrow>
          (case err of
             Some _ \<Rightarrow> Inr []
           | None \<Rightarrow> Inr (map rowToItem (case data of None \<Rightarrow> [] | Some rows \<Rightarrow> rows))))"

definition getLostFoundItemsByType ::
    "config \<Rightarrow> kind \<Rightarrow> StoredRow list response \<Rightarrow> string + LostFoundItem list" where
  "getLostFoundItemsByType cfg k resp =
     (case supabase_module cfg of
        Inl e \<Rightarrow> Inl e
      | Inr _ \<Rightarrow>
          (case getLostFoundItemsByType_try cfg k resp of
             Inl _ \<Rightarrow> Inr [] | Inr items \<Rightarrow> Inr items))"

definition getLostFoundItem_try ::
    "config \<Rightarrow> string \<Rightarrow> StoredRow response \<Rightarrow> string + LostFoundItem option" where
  "getLostFoundItem_try cfg i resp =
     (if \<not> configured cfg then Inr None
      else case resp of
        Throws e \<Rightarrow> Inl e
      | Returns data err \<Rightarrow>
          (case err of
             Some _ \<Rightarrow> Inr None
           | None \<Rightarrow> Inr (case data of None \<Rightarrow> None | Some row \<Rightarrow> Some (rowToItem row))))"

definition getLostFoundItem ::
    "config \<Rightarrow> string \<Rightarrow> StoredRow response \<Rightarrow> string + LostFoundItem option" where
  "getLostFoundItem cfg i resp =
     (case supabase_module cfg of
        Inl e \<Rightarrow> Inl e
      | Inr _ \<Rightarrow>
          (case getLostFoundItem_try cfg i resp of Inl _ \<Rightarrow> Inr None | Inr item \<Rightarrow> Inr item))"

text \<open>The configuration absent: neither variable of the environment is set.\<close>

definition noConfig :: config where
  "noConfig = \<lparr> SUPABASE_URL = [], SUPABASE_ANON_KEY = [] \<rparr>"

section \<open>Image optimizer (utils/imageOptimizer.ts)\<close>

text \<open>A browser \<open>File\<close>, as far as the code reads it: \<open>file.type\<close> and \<open>file.size\<close>.\<close>

record File =
  fileType :: string
  fileSize :: nat

text \<open>
  An optional property of an options object: it is absent, present with the value
  undefined, or present with a value. Reading it gives undefined (\<open>None\<close>) in the
  first two cases.
\<close>

datatype 'a optional = Absent | Undefined | Given 'a

definition valueOf :: "'a optional \<Rightarrow> 'a option" where
  "valueOf p = (case p of Given v \<Rightarrow> Some v | _ \<Rightarrow> None)"

text \<open>
  \<open>ImageOptimizationOptions\<close>, every property optional, and the options object
  handed to the compression library.
\<close>

record ImageOptimizationOptions =
  maxSizeMB :: "real optional"
  maxWidthOrHeight :: "nat optional"
  useWebWorker :: "bool optional"

record CompressionOptions =
  c_maxSizeMB :: "real option"
  c_maxWidthOrHeight :: "nat option"
  c_useWebWorker :: "bool option"
  c_fileType :: string

definition defaultOptions :: ImageOptimizationOptions where
  "defaultOptions = \<lparr> maxSizeMB = Given 2.5, maxWidthOrHeight = Given 1920,
     useWebWorker = Given True \<rparr>"

text \<open>The default of the parameter \<open>options\<close>, the empty object.\<close>

definition noOptions :: ImageOptimizationOptions where
  "noOptions = \<lparr> maxSizeMB = Absent, maxWidthOrHeight = Absent, useWebWorker = Absent \<rparr>"

text \<open>
  \<open>{ ...defaults, ...options }\<close>: every property that \<open>options\<close> has, also one whose
  value is undefined, replaces the default.
\<close>

definition spread :: "'a optional \<Rightarrow> 'a optional \<Rightarrow> 'a optional" where
  "spread d p = (case p of Absent \<Rightarrow> d | Undefined \<Rightarrow> Undefined | Given v \<Rightarrow> Given v)"

definition mergeOptions ::
    "ImageOptimizationOptions \<Rightarrow> ImageOptimizationOptions \<Rightarrow> ImageOptimizationOptions" where
  "mergeOptions defaults options = \<lparr>
     maxSizeMB = spread (maxSizeMB defaults) (maxSizeMB options),
     maxWidthOrHeight = spread (maxWidthOrHeight defaults) (maxWidthOrHeight options),
     useWebWorker = spread (useWebWorker defaults) (useWebWorker options) \<rparr>"

text \<open>What a \<open>throw\<close> or a rejected promise carries: an \<open>Error\<close> or any other value.\<close>

datatype thrown = Error string | NonError

text \<open>
  The \<open>try\<close> block of \<open>optimizeImage\<close>. The compression library is the parameter
  \<open>imageCompression\<close>: any function from a file and options to a file or a rejection.
  It is handed what the merged options hold, undefined included.
\<close>

definition optimizeImage_try ::
    "(File \<Rightarrow> CompressionOptions \<Rightarrow> thrown + File) \<Rightarrow> File \<Rightarrow> ImageOptimizationOptions
      \<Rightarrow> thrown + File" where
  "optimizeImage_try imageCompression file options =
     (let mergedOptions = mergeOptions defaultOptions options
      in if \<not> prefix ''image/'' (fileType file) then Inl (Error ''File must be an image'')
         else if fileSize file > 10 * 1024 * 1024 then
           Inl (Error ''Image is too large. Maximum size is 10MB before optimization.'')
         else
           (case imageCompression file \<lparr> c_maxSizeMB = valueOf (maxSizeMB mergedOptions),
                    c_maxWidthOrHeight = valueOf (maxWidthOrHeight mergedOptions),
                    c_useWebWorker = valueOf (useWebWorker mergedOptions),
                    c_fileType = fileType file \<rparr> of
              Inl e \<Rightarrow> Inl e
            | Inr compressedFile \<Rightarrow>
                if fileSize compressedFile > 3 * 1024 * 1024 then
                  (case imageCompression file \<lparr> c_maxSizeMB = Some 2,
                           c_maxWidthOrHeight = Some 1600,
                           c_useWebWorker = valueOf (useWebWorker mergedOptions),
                           c_fileType = fileType file \<rparr> of
                     Inl e \<Rightarrow> Inl e
                   | Inr moreCompressed \<Rightarrow>
                       if fileSize moreCompressed > 3 * 1024 * 1024 then
                         Inl (Error ''Image could not be compressed below 3MB. Please use a smaller image.'')
                       else Inr moreCompressed)
                else Inr compressedFile))"

text \<open>The \<open>catch\<close>: an \<open>Error\<close> is thrown again, anything else becomes an \<open>Error\<close>.\<close>

definition optimizeImage ::
    "(File \<Rightarrow> CompressionOptions \<Rightarrow> thrown + File) \<Rightarrow> File \<Rightarrow> ImageOptimizationOptions
      \<Rightarrow> thrown + File" where
  "optimizeImage imageCompression file options =
     (case optimizeImage_try imageCompression file options of
        Inl (Error msg) \<Rightarrow> Inl (Error msg)
      | Inl NonError \<Rightarrow> Inl (Error ''Failed to optimize image'')
      | Inr optimized \<Rightarrow> Inr optimized)"

text \<open>A compressor for the examples: it returns the file at a quarter of its size.\<close>

definition quarter :: "File \<Rightarrow> CompressionOptions \<Rightarrow> thrown + File" where
  "quarter file opts = Inr (file \<lparr> fileSize := fileSize file div 4 \<rparr>)"

section \<open>View-state controller: the derived view (App.tsx)\<close>

text \<open>
  Strings are lists of 8-bit characters, read as the code units U+0000 to U+00FF.
  On these \<open>toLowerCase\<close> moves A to Z and the capital letters of U+00C0 to U+00DE
  (the multiplication sign U+00D7 apart) up by 32, and \<open>trim\<close> strips tab, line feed,
  vertical tab, form feed, carriage return, space and the no-break space.
\<close>

definition toLowerCase_char :: "char \<Rightarrow> char" where
  "toLowerCase_char c =
     (let n = (of_char c :: nat)
      in if (65 \<le> n \<and> n \<le> 90) \<or> (192 \<le> n \<and> n \<le> 222 \<and> n \<noteq> 215)
         then char_of (n + 32) else c)"

definition toLowerCase :: "string \<Rightarrow> string" where
  "toLowerCase s = map toLowerCase_char s"

definition isWhiteSpace :: "char \<Rightarrow> bool" where
  "isWhiteSpace c = ((of_char c :: nat) \<in> {9, 10, 11, 12, 13, 32, 160})"

definition trim :: "string \<Rightarrow> string" where
  "trim s = rev (dropWhile isWhiteSpace (rev (dropWhile isWhiteSpace s)))"

text \<open>\<open>s.includes(q)\<close>: \<open>q\<close> occurs in \<open>s\<close> at some position.\<close>

fun includesStr :: "string \<Rightarrow> string \<Rightarrow> bool" where
  "includesStr [] q = (q = [])"
| "includesStr (c # cs) q = (prefix q (c # cs) \<or> includesStr cs q)"

text \<open>The filter selection \<open>'all' | 'lost' | 'found'\<close>.\<close>

datatype filterSel = FilterAll | FilterKind kind

text \<open>
  The three statements of the filter effect, each taking the list \<open>filtered\<close> so far,
  and the effect itself, which runs them in the order of the source. A non-empty string
  is truthy, so \<open>if (searchQuery.trim())\<close> asks whether anything is left after trimming.
\<close>

definition kindStage :: "filterSel \<Rightarrow> LostFoundItem list \<Rightarrow> LostFoundItem list" where
  "kindStage f filtered =
     (if f \<noteq> FilterAll then filter (\<lambda>item. FilterKind (itemType item) = f) filtered
      else filtered)"

definition statusStage :: "filterSel \<Rightarrow> LostFoundItem list \<Rightarrow> LostFoundItem list" where
  "statusStage f filtered = filter (\<lambda>item. status item = Active \<or> f = FilterAll) filtered"

definition searchStage :: "string \<Rightarrow> LostFoundItem list \<Rightarrow> LostFoundItem list" where
  "searchStage searchQuery filtered =
     (if trim searchQuery \<noteq> [] then
        (let query = toLowerCase searchQuery
         in filter (\<lambda>item.
              includesStr (toLowerCase (title item)) query \<or>
              includesStr (toLowerCase (description item)) query \<or>
              includesStr (toLowerCase (location item)) query) filtered)
      else filtered)"

definition filteredItems ::
    "LostFoundItem list \<Rightarrow> filterSel \<Rightarrow> string \<Rightarrow> LostFoundItem list" where
  "filteredItems items f searchQuery =
     searchStage searchQuery (statusStage f (kindStage f items))"

text \<open>
  The reference definition, after the specification's words: a case-insensitive
  substring match (\<open>sublist\<close> is the library's contiguous sublist), the kind filter, the
  status visibility rule and the search, an empty query passing everything.
\<close>

definition ci_substring :: "string \<Rightarrow> string \<Rightarrow> bool" where
  "ci_substring q s = sublist (toLowerCase q) (toLowerCase s)"

definition derivedView_spec ::
    "LostFoundItem list \<Rightarrow> filterSel \<Rightarrow> string \<Rightarrow> LostFoundItem list" where
  "derivedView_spec items f q =
     filter (\<lambda>item. q = [] \<or> ci_substring q (title item) \<or>
                   ci_substring q (description item) \<or> ci_substring q (location item))
       (filter (\<lambda>item. f = FilterAll \<or> status item = Active)
         (filter (\<lambda>item. f = FilterAll \<or> f = FilterKind (itemType item)) items))"

text \<open>
  The same with the search stage as the code has it: a query of white space only
  passes everything, like the empty one.
\<close>

definition blank :: "string \<Rightarrow> bool" where
  "blank q = list_all isWhiteSpace q"

definition derivedView_blank ::
    "LostFoundItem list \<Rightarrow> filterSel \<Rightarrow> string \<Rightarrow> LostFoundItem list" where
  "derivedView_blank items f q =
     filter (\<lambda>item. blank q \<or> ci_substring q (title item) \<or>
                   ci_substring q (description item) \<or> ci_substring q (location item))
       (filter (\<lambda>item. f = FilterAll \<or> status item = Active)
         (filter (\<lambda>item. f = FilterAll \<or> f = FilterKind (itemType item)) items))"

text \<open>Items for the examples.\<close>

definition keys :: LostFoundItem where
  "keys = \<lparr> itemId = ''1'', itemType = Lost, title = ''keys'', description = ''keyring'',
     location = ''gym'', contactInfo = ''a@b.com'', imageUrl = None,
     createdAt = NewDate ''2024-01-01T00:00:00Z'', updatedAt = NewDate ''2024-01-01T00:00:00Z'',
     status = Active \<rparr>"

definition wallet :: LostFoundItem where
  "wallet = \<lparr> itemId = ''2'', itemType = Found, title = ''wallet'', description = ''brown'',
     location = ''gym hall'', contactInfo = ''c@d.com'', imageUrl = None,
     createdAt = NewDate ''2024-01-02T00:00:00Z'', updatedAt = NewDate ''2024-01-03T00:00:00Z'',
     status = Claimed \<rparr>"

section \<open>The hosted table and the write calls (services/supabase.ts)\<close>

text \<open>
  The hosted table is a list of rows. An update request sets, in every row whose id
  matches, the columns its body carries: a column that was dropped from the body keeps
  its value, null empties it, a value replaces it.
\<close>

definition applySent :: "SentRow \<Rightarrow> StoredRow \<Rightarrow> StoredRow" where
  "applySent sent row = row \<lparr>
     row_type := (case s_type sent of None \<Rightarrow> row_type row | Some v \<Rightarrow> v),
     row_title := (case s_title sent of None \<Rightarrow> row_title row | Some v \<Rightarrow> v),
     row_description := (case s_description sent of None \<Rightarrow> row_description row | Some v \<Rightarrow> v),
     row_location := (case s_location sent of None \<Rightarrow> row_location row | Some v \<Rightarrow> v),
     contact_info := (case s_contact_info sent of None \<Rightarrow> contact_info row | Some v \<Rightarrow> v),
     image_url := (case s_image_url sent of Omitted \<Rightarrow> image_url row | Null \<Rightarrow> None
                   | Val v \<Rightarrow> Some v),
     row_status := (case s_status sent of Omitted \<Rightarrow> row_status row | Null \<Rightarrow> None
                    | Val v \<Rightarrow> Some v),
     updated_at := (case s_updated_at sent of None \<Rightarrow> updated_at row | Some v \<Rightarrow> v) \<rparr>"

definition db_update :: "string \<Rightarrow> SentRow \<Rightarrow> StoredRow list \<Rightarrow> StoredRow list" where
  "db_update i sent table = map (\<lambda>row. if row_id row = i then applySent sent row else row) table"

text \<open>
  An insert adds a row under the id and the time the store assigns. The five text and
  kind columns are required: a body without one of them is refused (\<open>None\<close>).
  \<open>itemToRow\<close> always sends \<open>image_url\<close> and \<open>status\<close>; were one missing, it is
  stored as null here.
\<close>

definition db_insert ::
    "string \<Rightarrow> string \<Rightarrow> SentRow \<Rightarrow> StoredRow list \<Rightarrow> StoredRow list option" where
  "db_insert newId now sent table =
     (case (s_type sent, s_title sent, s_description sent, s_location sent, s_contact_info sent) of
        (Some k, Some t, Some d, Some l, Some c) \<Rightarrow>
          Some (\<lparr> row_id = newId, row_type = k, row_title = t, row_description = d,
                  row_location = l, contact_info = c,
                  image_url = (case s_image_url sent of Val v \<Rightarrow> Some v | _ \<Rightarrow> None),
                  row_status = (case s_status sent of Val v \<Rightarrow> Some v | _ \<Rightarrow> None),
                  created_at = now,
                  updated_at = (case s_updated_at sent of None \<Rightarrow> now | Some v \<Rightarrow> v) \<rparr> # table)
      | _ \<Rightarrow> None)"

definition db_delete :: "string \<Rightarrow> StoredRow list \<Rightarrow> StoredRow list" where
  "db_delete i table = filter (\<lambda>row. row_id row \<noteq> i) table"

text \<open>
  What becomes of a write request: the promise rejects, the reply carries an error, or
  the store applies the request. In the first two cases the table is left as it was.
\<close>

datatype writeOutcome = WriteThrows string | WriteError string | WriteOk

text \<open>
  The write calls take the table and return it with their result, \<open>Inl\<close> being what
  they throw: each \<open>catch\<close> logs and throws the error again. \<open>newId\<close> and \<open>now\<close>
  are the id the store assigns and the time of the request.
\<close>

definition addLostFoundItem ::
    "config \<Rightarrow> string \<Rightarrow> string \<Rightarrow> writeOutcome \<Rightarrow> PartialItem \<Rightarrow> StoredRow list
      \<Rightarrow> (string + string) \<times> StoredRow list" where
  "addLostFoundItem cfg newId now outcome item table =
     (if \<not> configured cfg then (Inl ''Supabase not configured'', table)
      else let row = itemToRow item
           in case outcome of
                WriteThrows e \<Rightarrow> (Inl e, table)
              | WriteError e \<Rightarrow> (Inl e, table)
              | WriteOk \<Rightarrow>
                  (case db_insert newId now row table of
                     None \<Rightarrow> (Inl ''null value in column violates not-null constraint'', table)
                   | Some table' \<Rightarrow> (Inr newId, table')))"

definition updateLostFoundItem ::
    "config \<Rightarrow> string \<Rightarrow> writeOutcome \<Rightarrow> string \<Rightarrow> PartialItem \<Rightarrow> StoredRow list
      \<Rightarrow> (string + unit) \<times> StoredRow list" where
  "updateLostFoundItem cfg now outcome i updates table =
     (if \<not> configured cfg then (Inl ''Supabase not configured'', table)
      else let row = (itemToRow updates) \<lparr> s_updated_at := Some now \<rparr>
           in case outcome of
                WriteThrows e \<Rightarrow> (Inl e, table)
              | WriteError e \<Rightarrow> (Inl e, table)
              | WriteOk \<Rightarrow> (Inr (), db_update i row table))"

definition deleteLostFoundItem ::
    "config \<Rightarrow> writeOutcome \<Rightarrow> string \<Rightarrow> StoredRow list \<Rightarrow> (string + unit) \<times> StoredRow list" where
  "deleteLostFoundItem cfg outcome i table =
     (if \<not> configured cfg then (Inl ''Supabase not configured'', table)
      else case outcome of
             WriteThrows e \<Rightarrow> (Inl e, table)
           | WriteError e \<Rightarrow> (Inl e, table)
           | WriteOk \<Rightarrow> (Inr (), db_delete i table))"

section \<open>View-state controller: the write flows (App.tsx)\<close>

text \<open>\<open>interface LostFoundItemInput\<close>, the data a form submits.\<close>

record LostFoundItemInput =
  inType :: kind
  inTitle :: string
  inDescription :: string
  inLocation :: string
  inContactInfo :: string
  inImage :: "File option"

text \<open>
  How a handler ends: it completes, it shows the alert, it shows the alert and throws
  the error on, or the user did not confirm.
\<close>

datatype ending = Done | Alerted | AlertedAndThrew | NotConfirmed

text \<open>
  The handlers, by their effect on the hosted table. \<open>refreshItems\<close> only reads and
  never throws, and \<open>deleteImage\<close> only logs, so neither appears. \<open>uploaded\<close> is what
  \<open>uploadImage\<close> gives for the attached file: an error or the URL of the hosted image.
\<close>

definition handleStatusChange ::
    "config \<Rightarrow> string \<Rightarrow> writeOutcome \<Rightarrow> string \<Rightarrow> status \<Rightarrow> StoredRow list
      \<Rightarrow> ending \<times> StoredRow list" where
  "handleStatusChange cfg now outcome i st table =
     (case updateLostFoundItem cfg now outcome i (noFields \<lparr> pStatus := Some st \<rparr>) table of
        (Inl _, table') \<Rightarrow> (Alerted, table')
      | (Inr _, table') \<Rightarrow> (Done, table'))"

definition handleDeleteItem ::
    "config \<Rightarrow> bool \<Rightarrow> writeOutcome \<Rightarrow> string \<Rightarrow> StoredRow list \<Rightarrow> ending \<times> StoredRow list" where
  "handleDeleteItem cfg confirmed outcome i table =
     (if \<not> confirmed then (NotConfirmed, table)
      else case deleteLostFoundItem cfg outcome i table of
             (Inl _, table') \<Rightarrow> (Alerted, table')
           | (Inr _, table') \<Rightarrow> (Done, table'))"

definition handleSubmitForm ::
    "config \<Rightarrow> string \<Rightarrow> string \<Rightarrow> (string + string) \<Rightarrow> writeOutcome \<Rightarrow> LostFoundItem option
      \<Rightarrow> LostFoundItemInput \<Rightarrow> StoredRow list \<Rightarrow> ending \<times> StoredRow list" where
  "handleSubmitForm cfg newId now uploaded outcome editingItem data table =
     (case editingItem of
        Some item \<Rightarrow>
          (let updates = noFields \<lparr> pType := Some (inType data), pTitle := Some (inTitle data),
                 pDescription := Some (inDescription data), pLocation := Some (inLocation data),
                 pContactInfo := Some (inContactInfo data) \<rparr>;
               withImage = (case inImage data of
                    None \<Rightarrow> Inr updates
                  | Some _ \<Rightarrow> (case uploaded of Inl e \<Rightarrow> Inl e
                               | Inr url \<Rightarrow> Inr (updates \<lparr> pImageUrl := Some url \<rparr>)))
           in case withImage of
                Inl _ \<Rightarrow> (AlertedAndThrew, table)
              | Inr updates' \<Rightarrow>
                  (case updateLostFoundItem cfg now outcome (itemId item) updates' table of
                     (Inl _, table') \<Rightarrow> (AlertedAndThrew, table')
                   | (Inr _, table') \<Rightarrow> (Done, table')))
      | None \<Rightarrow>
          (let imageUrl = (case inImage data of
                    None \<Rightarrow> Inr None
                  | Some _ \<Rightarrow> (case uploaded of Inl e \<Rightarrow> Inl e | Inr url \<Rightarrow> Inr (Some url)))
           in case imageUrl of
                Inl _ \<Rightarrow> (AlertedAndThrew, table)
              | Inr url \<Rightarrow>
                  (case addLostFoundItem cfg newId now outcome
                          \<lparr> pType = Some (inType data), pTitle = Some (inTitle data),
                            pDescription = Some (inDescription data),
                            pLocation = Some (inLocation data),
                            pContactInfo = Some (inContactInfo data),
                            pImageUrl = url, pStatus = Some Active \<rparr> table of
                     (Inl _, table') \<Rightarrow> (AlertedAndThrew, table')
                   | (Inr _, table') \<Rightarrow> (Done, table'))))"

text \<open>
  A sequence of edit submissions: each carries the item being edited, the submitted
  data and what the upload and the store do; the table is threaded through.
\<close>

record EditSubmission =
  es_now :: string
  es_uploaded :: "string + string"
  es_outcome :: writeOutcome
  es_item :: LostFoundItem
  es_data :: LostFoundItemInput

fun submitEdits :: "config \<Rightarrow> EditSubmission list \<Rightarrow> StoredRow list \<Rightarrow> StoredRow list" where
  "submitEdits cfg [] table = table"
| "submitEdits cfg (e # es) table =
     submitEdits cfg es
       (snd (handleSubmitForm cfg [] (es_now e) (es_uploaded e) (es_outcome e)
               (Some (es_item e)) (es_data e) table))"

text \<open>
  A session for the examples: a lost backpack is posted with a photo, marked as
  claimed, and then edited, once changing the title and once changing the type.
\<close>

definition cfg0 :: config where
  "cfg0 = \<lparr> SUPABASE_URL = ''https://x.supabase.co'', SUPABASE_ANON_KEY = ''key'' \<rparr>"

definition backpackInput :: LostFoundItemInput where
  "backpackInput = \<lparr> inType = Lost, inTitle = ''Blue Backpack'', inDescription = ''Left in library'',
     inLocation = ''Library 2F'', inContactInfo = ''a@b.com'', inImage = None \<rparr>"

definition photo :: File where
  "photo = \<lparr> fileType = ''image/jpeg'', fileSize = 8388608 \<rparr>"

definition photoUrl :: string where
  "photoUrl = ''https://res.cloudinary.com/demo/image/upload/lost-found-board/temp_1.jpg''"

definition posted :: "StoredRow list" where
  "posted = snd (handleSubmitForm cfg0 ''7'' ''2024-01-01T10:00:00Z'' (Inr photoUrl) WriteOk None
      (backpackInput \<lparr> inImage := Some photo \<rparr>) [])"

definition markedClaimed :: "StoredRow list" where
  "markedClaimed =
     snd (handleStatusChange cfg0 ''2024-01-02T10:00:00Z'' WriteOk ''7'' Claimed posted)"

definition retitled :: "StoredRow list" where
  "retitled = snd (handleSubmitForm cfg0 [] ''2024-01-03T10:00:00Z'' (Inl []) WriteOk
      (find (\<lambda>item. itemId item = ''7'') (map rowToItem markedClaimed))
      (backpackInput \<lparr> inTitle := ''Blue Backpack (reward)'' \<rparr>) markedClaimed)"

definition retyped :: "StoredRow list" where
  "retyped = snd (handleSubmitForm cfg0 [] ''2024-01-03T10:00:00Z'' (Inl []) WriteOk
      (find (\<lambda>item. itemId item = ''7'') (map rowToItem posted))
      (backpackInput \<lparr> inType := Found \<rparr>) posted)"

section \<open>The item form (components/ItemForm.tsx)\<close>

text \<open>
  The state of the form that the image handlers use, with the object URLs the browser
  holds: those that \<open>URL.createObjectURL\<close> has handed out and that have not been
  revoked. The URL the browser hands out is its choice, the argument \<open>fresh\<close>.
\<close>

record FormState =
  formData :: LostFoundItemInput
  imagePreview :: "string option"
  imageFile :: "File option"
  objectUrls :: "string list"

definition createPreviewUrl :: "File \<Rightarrow> string \<Rightarrow> string list \<Rightarrow> string \<times> string list" where
  "createPreviewUrl file fresh urls = (fresh, fresh # urls)"

definition revokePreviewUrl :: "string \<Rightarrow> string list \<Rightarrow> string list" where
  "revokePreviewUrl url urls = removeAll url urls"

text \<open>\<open>item?.imageUrl\<close> is truthy: there is an item and its imageUrl is a non-empty string.\<close>

definition itemHasImageUrl :: "LostFoundItem option \<Rightarrow> bool" where
  "itemHasImageUrl item =
     (case item of None \<Rightarrow> False
      | Some i \<Rightarrow> (case imageUrl i of None \<Rightarrow> False | Some u \<Rightarrow> u \<noteq> []))"

text \<open>The initial state of the form for the item being edited, or for none.\<close>

definition initialForm :: "LostFoundItem option \<Rightarrow> string list \<Rightarrow> FormState" where
  "initialForm item urls = \<lparr>
     formData = (case item of
        None \<Rightarrow> \<lparr> inType = Lost, inTitle = [], inDescription = [], inLocation = [],
                  inContactInfo = [], inImage = None \<rparr>
      | Some i \<Rightarrow> \<lparr> inType = itemType i, inTitle = title i, inDescription = description i,
                    inLocation = location i, inContactInfo = contactInfo i, inImage = None \<rparr>),
     imagePreview = (case item of None \<Rightarrow> None
        | Some i \<Rightarrow> (case imageUrl i of None \<Rightarrow> None
                     | Some u \<Rightarrow> if u = [] then None else Some u)),
     imageFile = None,
     objectUrls = urls \<rparr>"

definition handleImageChange :: "File option \<Rightarrow> string \<Rightarrow> FormState \<Rightarrow> FormState" where
  "handleImageChange picked fresh st =
     (case picked of
        None \<Rightarrow> st
      | Some file \<Rightarrow>
          if \<not> prefix ''image/'' (fileType file) then st
          else if fileSize file > 10 * 1024 * 1024 then st
          else (case createPreviewUrl file fresh (objectUrls st) of
                  (preview, urls) \<Rightarrow>
                    st \<lparr> imageFile := Some file, imagePreview := Some preview,
                         objectUrls := urls \<rparr>))"

definition handleRemoveImage :: "LostFoundItem option \<Rightarrow> FormState \<Rightarrow> FormState" where
  "handleRemoveImage item st =
     st \<lparr> imagePreview := None, imageFile := None,
          objectUrls := (case imagePreview st of
             None \<Rightarrow> objectUrls st
           | Some p \<Rightarrow> if p \<noteq> [] \<and> \<not> itemHasImageUrl item
                       then revokePreviewUrl p (objectUrls st) else objectUrls st) \<rparr>"

text \<open>
  \<open>handleSubmit\<close>, \<open>submitted\<close> telling whether \<open>onSubmit\<close>, called with the form
  data and the picked file, returned (\<open>True\<close>) or threw. The form keeps its state; on
  success the preview is cleaned up under the same guard as in \<open>handleRemoveImage\<close>.
\<close>

definition handleSubmit :: "LostFoundItem option \<Rightarrow> bool \<Rightarrow> FormState \<Rightarrow> FormState" where
  "handleSubmit item submitted st =
     (if trim (inTitle (formData st)) = [] \<or> trim (inDescription (formData st)) = [] then st
      else if submitted then
        st \<lparr> objectUrls := (case imagePreview st of
             None \<Rightarrow> objectUrls st
           | Some p \<Rightarrow> if p \<noteq> [] \<and> \<not> itemHasImageUrl item
                       then revokePreviewUrl p (objectUrls st) else objectUrls st) \<rparr>
      else st)"

text \<open>
  A form session for the examples: the backpack of the session above, which has a
  hosted photo, is opened for editing; the user removes the photo, picks a new file,
  and removes it again, or submits instead.
\<close>

definition backpackItem :: LostFoundItem where
  "backpackItem = \<lparr> itemId = ''7'', itemType = Lost, title = ''Blue Backpack'',
     description = ''Left in library'', location = ''Library 2F'', contactInfo = ''a@b.com'',
     imageUrl = Some photoUrl, createdAt = NewDate ''2024-01-01T10:00:00Z'',
     updatedAt = NewDate ''2024-01-01T10:00:00Z'', status = Active \<rparr>"

definition pickedAgain :: FormState where
  "pickedAgain = handleImageChange (Some photo) ''blob:1''
     (handleRemoveImage (Some backpackItem) (initialForm (Some backpackItem) []))"

text \<open>Two further edit submissions of the backpack that keep its type; the second is refused.\<close>

definition twoEdits :: "EditSubmission list" where
  "twoEdits = [
     \<lparr> es_now = ''2024-01-03T10:00:00Z'', es_uploaded = Inl [], es_outcome = WriteOk,
       es_item = backpackItem, es_data = backpackInput \<lparr> inTitle := ''Blue Backpack (reward)'' \<rparr> \<rparr>,
     \<lparr> es_now = ''2024-01-04T10:00:00Z'', es_uploaded = Inr photoUrl, es_outcome = WriteError ''timeout'',
       es_item = backpackItem, es_data = backpackInput \<lparr> inImage := Some photo \<rparr> \<rparr>]"

section \<open>Subscription (services/supabase.ts)\<close>

text \<open>
  A subscription, as the function and the environment drive it. Every call of
  \<open>getLostFoundItems().then(callback)\<close> starts a fetch; the fetches are numbered in the
  order in which they are started, and each is remembered with the statement that
  started it: the initial load, the handler of a change, or the timer of the polling
  fallback. \<open>delivered\<close> lists the calls of \<open>callback\<close> in the order in which they are
  made.
\<close>

datatype origin = Initial | ChangeDriven | Polled

datatype transport = Push | Polling

datatype event = Change | Tick | Settle nat "StoredRow list response" | Unsubscribe

record Subscription =
  transport :: transport
  listening :: bool
  nextFetch :: nat
  pending :: "(nat \<times> origin) list"
  delivered :: "(origin \<times> LostFoundItem list) list"

definition startFetch :: "origin \<Rightarrow> Subscription \<Rightarrow> Subscription" where
  "startFetch org s =
     s \<lparr> nextFetch := Suc (nextFetch s), pending := pending s @ [(nextFetch s, org)] \<rparr>"

text \<open>
  \<open>subscribeToLostFoundItems\<close>, called once its module has loaded. On either path the
  initial load is started first; then the timer is set, or the channel is subscribed.
\<close>

definition subscribeToLostFoundItems :: "config \<Rightarrow> string + Subscription" where
  "subscribeToLostFoundItems cfg =
     (case supabase_module cfg of
        Inl e \<Rightarrow> Inl e
      | Inr _ \<Rightarrow>
          (let idle = \<lparr> transport = Push, listening = False, nextFetch = 0, pending = [],
                         delivered = [] \<rparr>
           in if \<not> configured cfg
              then Inr ((startFetch Initial idle) \<lparr> transport := Polling, listening := True \<rparr>)
              else Inr ((startFetch Initial idle) \<lparr> transport := Push, listening := True \<rparr>)))"

text \<open>
  What the environment does to a subscription: the store reports a change, the timer
  ticks, the fetch with a given number settles with a given answer, or the function
  that \<open>subscribeToLostFoundItems\<close> returned is called. A change or a tick starts a
  fetch if the subscription listens on that path. A fetch that settles hands the result
  of \<open>getLostFoundItems\<close> to \<open>callback\<close>; nothing makes a fetch wait for one started
  before it. Unsubscribing removes the channel or clears the timer; fetches already
  started still settle.
\<close>

fun step :: "config \<Rightarrow> event \<Rightarrow> Subscription \<Rightarrow> Subscription" where
  "step cfg Change s =
     (if listening s \<and> transport s = Push then startFetch ChangeDriven s else s)"
| "step cfg Tick s =
     (if listening s \<and> transport s = Polling then startFetch Polled s else s)"
| "step cfg (Settle n resp) s =
     (case map_of (pending s) n of
        None \<Rightarrow> s
      | Some org \<Rightarrow>
          (case getLostFoundItems cfg resp of
             Inl _ \<Rightarrow> s \<lparr> pending := filter (\<lambda>p. fst p \<noteq> n) (pending s) \<rparr>
           | Inr items \<Rightarrow>
               s \<lparr> pending := filter (\<lambda>p. fst p \<noteq> n) (pending s),
                    delivered := delivered s @ [(org, items)] \<rparr>))"
| "step cfg Unsubscribe s = s \<lparr> listening := False \<rparr>"

fun run :: "config \<Rightarrow> event list \<Rightarrow> Subscription \<Rightarrow> Subscription" where
  "run cfg [] s = s"
| "run cfg (e # es) s = run cfg es (step cfg e s)"

fun isSettle :: "event \<Rightarrow> bool" where
  "isSettle (Settle n resp) = True"
| "isSettle e = False"

fun settles :: "nat \<Rightarrow> event \<Rightarrow> bool" where
  "settles m (Settle n resp) = (n = m)"
| "settles m e = False"

text \<open>A call of \<open>subscribeToLostFoundItems\<close> followed by a schedule of the environment.\<close>

definition subscribed :: "config \<Rightarrow> event list \<Rightarrow> string + Subscription" where
  "subscribed cfg events =
     (case subscribeToLostFoundItems cfg of Inl e \<Rightarrow> Inl e | Inr s \<Rightarrow> Inr (run cfg events s))"

text \<open>
  For the examples: the answers of an empty store and of a store with one row, and the
  subscription as it is when \<open>subscribeToLostFoundItems\<close> returns.
\<close>

definition emptyStore :: "StoredRow list response" where
  "emptyStore = Returns (Some []) None"

definition backpackRow :: StoredRow where
  "backpackRow = \<lparr> row_id = ''7'', row_type = Lost, row_title = ''Blue Backpack'',
     row_description = ''Left in library'', row_location = ''Library 2F'',
     contact_info = ''a@b.com'', image_url = None, row_status = Some Active,
     created_at = ''2024-01-01T10:00:00Z'', updated_at = ''2024-01-01T10:00:00Z'' \<rparr>"

definition oneRow :: "StoredRow list response" where
  "oneRow = Returns (Some [backpackRow]) None"

definition sub0 :: Subscription where
  "sub0 = \<lparr> transport = Push, listening = True, nextFetch = 1, pending = [(0, Initial)],
     delivered = [] \<rparr>"

text \<open>The initial load is still under way, as the first of the pending fetches.\<close>

definition initialPending :: "Subscription \<Rightarrow> bool" where
  "initialPending s = (case pending s of [] \<Rightarrow> False | p # ps \<Rightarrow> p = (0, Initial))"

section \<open>Row mapping\<close>

text \<open>
  C10. \<open>rowToItem\<close> gives status active when the status column is null or absent, and
  no imageUrl when the image_url column is null or the empty string; a status or a
  non-empty image_url that is present is kept, and every other column is copied to the
  field of the same meaning, the two timestamps through \<open>new Date\<close>.
\<close>

theorem rowToItem_mapping:
  "(row_status row = None \<longrightarrow> status (rowToItem row) = Active) \<and>
   (image_url row = None \<or> image_url row = Some [] \<longrightarrow> imageUrl (rowToItem row) = None) \<and>
   (\<forall>s. row_status row = Some s \<longrightarrow> status (rowToItem row) = s) \<and>
   (\<forall>u. image_url row = Some u \<and> u \<noteq> [] \<longrightarrow> imageUrl (rowToItem row) = Some u) \<and>
   itemId (rowToItem row) = row_id row \<and>
   itemType (rowToItem row) = row_type row \<and>
   title (rowToItem row) = row_title row \<and>
   description (rowToItem row) = row_description row \<and>
   location (rowToItem row) = row_location row \<and>
   contactInfo (rowToItem row) = contact_info row \<and>
   createdAt (rowToItem row) = NewDate (created_at row) \<and>
   updatedAt (rowToItem row) = NewDate (updated_at row)"
  by (simp add: rowToItem_def)

theorem rowToItem_mapping_witness:
  "status (rowToItem \<lparr> row_id = ''7'', row_type = Found, row_title = ''Keys'',
      row_description = ''Car keys'', row_location = ''Gym'', contact_info = ''a@b.com'',
      image_url = Some [], row_status = None,
      created_at = ''2024-01-01T00:00:00Z'', updated_at = ''2024-01-02T00:00:00Z'' \<rparr>) = Active \<and>
   imageUrl (rowToItem \<lparr> row_id = ''7'', row_type = Found, row_title = ''Keys'',
      row_description = ''Car keys'', row_location = ''Gym'', contact_info = ''a@b.com'',
      image_url = Some [], row_status = None,
      created_at = ''2024-01-01T00:00:00Z'', updated_at = ''2024-01-02T00:00:00Z'' \<rparr>) = None \<and>
   contactInfo (rowToItem \<lparr> row_id = ''7'', row_type = Found, row_title = ''Keys'',
      row_description = ''Car keys'', row_location = ''Gym'', contact_info = ''a@b.com'',
      image_url = Some [], row_status = None,
      created_at = ''2024-01-01T00:00:00Z'', updated_at = ''2024-01-02T00:00:00Z'' \<rparr>) = ''a@b.com''"
  using rowToItem_mapping [of "\<lparr> row_id = ''7'', row_type = Found, row_title = ''Keys'',
      row_description = ''Car keys'', row_location = ''Gym'', contact_info = ''a@b.com'',
      image_url = Some [], row_status = None,
      created_at = ''2024-01-01T00:00:00Z'', updated_at = ''2024-01-02T00:00:00Z'' \<rparr>"]
  by simp

section \<open>Read calls\<close>

text \<open>
  Once the module has loaded, the configuration is present, and a read call returns a
  value whatever the query does: the empty list, or null for \<open>getLostFoundItem\<close>,
  when the promise rejects or the reply carries an error.
\<close>

lemma supabase_module_loaded: "(supabase_module cfg = Inr ()) = configured cfg"
  by (simp add: supabase_module_def createClient_def configured_def)

lemma getLostFoundItems_configured:
  assumes "configured cfg"
  shows "\<exists>items. getLostFoundItems cfg resp = Inr items"
    and "getLostFoundItems cfg (Throws e) = Inr []"
    and "getLostFoundItems cfg (Returns data (Some err)) = Inr []"
  using assms
  by (auto simp: getLostFoundItems_def getLostFoundItems_try_def supabase_module_def
        createClient_def configured_def split: response.splits option.splits)

lemma getLostFoundItemsByType_configured:
  assumes "configured cfg"
  shows "\<exists>items. getLostFoundItemsByType cfg k resp = Inr items"
    and "getLostFoundItemsByType cfg k (Throws e) = Inr []"
    and "getLostFoundItemsByType cfg k (Returns data (Some err)) = Inr []"
  using assms
  by (auto simp: getLostFoundItemsByType_def getLostFoundItemsByType_try_def
        supabase_module_def createClient_def configured_def
      split: response.splits option.splits)

lemma getLostFoundItem_configured:
  assumes "configured cfg"
  shows "\<exists>item. getLostFoundItem cfg i resp = Inr item"
    and "getLostFoundItem cfg i (Throws e) = Inr None"
    and "getLostFoundItem cfg i (Returns data (Some err)) = Inr None"
  using assms
  by (auto simp: getLostFoundItem_def getLostFoundItem_try_def supabase_module_def
        createClient_def configured_def split: response.splits option.splits)

text \<open>
  C7. A read call is to give the empty collection, or nothing for \<open>getLostFoundItem\<close>,
  on a transport failure, on a backend error and when the configuration is absent. With
  the configuration absent it does not: the module creates its client when it is
  loaded, \<open>createClient\<close> throws for the empty URL, and the branch of each read call
  that returns the empty list is never reached. Every read call ends in that error.
\<close>

theorem reads_fail_without_configuration:
  "supabase_module noConfig = Inl ''supabaseUrl is required.'' \<and>
   getLostFoundItems noConfig resp = Inl ''supabaseUrl is required.'' \<and>
   getLostFoundItemsByType noConfig k resp = Inl ''supabaseUrl is required.'' \<and>
   getLostFoundItem noConfig i resp1 = Inl ''supabaseUrl is required.''"
  by (simp add: getLostFoundItems_def getLostFoundItemsByType_def getLostFoundItem_def
        supabase_module_def createClient_def noConfig_def)

section \<open>Image size after optimisation\<close>

text \<open>
  C4. For a file whose type starts with \<open>image/\<close> and whose size is at most 10 MB,
  whatever the compression library does, \<open>optimizeImage\<close> returns a file of at most
  3 * 1024 * 1024 bytes or throws an \<open>Error\<close> with a message; it never returns a
  larger file.
\<close>

theorem optimizeImage_at_most_3MB:
  assumes "prefix ''image/'' (fileType file)" and "fileSize file \<le> 10 * 1024 * 1024"
  shows "(\<exists>out. optimizeImage imageCompression file options = Inr out \<and>
                fileSize out \<le> 3 * 1024 * 1024) \<or>
         (\<exists>msg. optimizeImage imageCompression file options = Inl (Error msg))"
  using assms
  by (auto simp: optimizeImage_def optimizeImage_try_def Let_def
      split: sum.splits thrown.splits)

theorem optimizeImage_at_most_3MB_witness:
  "prefix ''image/'' (fileType \<lparr> fileType = ''image/jpeg'', fileSize = 8388608 \<rparr>) \<and>
   fileSize \<lparr> fileType = ''image/jpeg'', fileSize = 8388608 \<rparr> \<le> 10 * 1024 * 1024 \<and>
   ((\<exists>out. optimizeImage quarter \<lparr> fileType = ''image/jpeg'', fileSize = 8388608 \<rparr>
             noOptions = Inr out \<and> fileSize out \<le> 3 * 1024 * 1024) \<or>
    (\<exists>msg. optimizeImage quarter \<lparr> fileType = ''image/jpeg'', fileSize = 8388608 \<rparr>
             noOptions = Inl (Error msg)))"
proof -
  have t: "prefix ''image/'' (fileType \<lparr> fileType = ''image/jpeg'', fileSize = 8388608 \<rparr>)"
    by simp
  have s: "fileSize \<lparr> fileType = ''image/jpeg'', fileSize = 8388608 \<rparr> \<le> 10 * 1024 * 1024"
    by simp
  from optimizeImage_at_most_3MB [OF t s, of quarter noOptions] t s
  show ?thesis by blast
qed

section \<open>The derived view\<close>

lemma includesStr_sublist: "includesStr s q = sublist q s"
  by (induction s) (auto simp: sublist_Cons_right)

lemma ball_dropWhile: "(\<forall>x \<in> set (dropWhile P xs). P x) = (\<forall>x \<in> set xs. P x)"
  by (induction xs) auto

lemma trim_Nil_iff: "(trim q = []) = blank q"
  by (simp add: trim_def blank_def ball_dropWhile list_all_iff)

text \<open>
  C5, as stated, fails: with the query of one space the code shows an item none of
  whose fields contains a space, the reference definition does not.
\<close>

theorem derived_view_counterexample:
  "filteredItems [keys] FilterAll '' '' \<noteq> derivedView_spec [keys] FilterAll '' ''"
  by (simp add: filteredItems_def derivedView_spec_def searchStage_def statusStage_def
        kindStage_def trim_def isWhiteSpace_def ci_substring_def toLowerCase_def
        toLowerCase_char_def keys_def sublist_Cons_right)

text \<open>
  C5, amended. The derived view is: the items matching the kind filter (all passes every
  kind), then only the active ones unless the filter is all, then, unless the query is
  empty or white space only, the items where the query as typed is a case-insensitive
  substring of title, description or location.
\<close>

theorem derived_view_amended:
  "filteredItems items f q = derivedView_blank items f q"
  by (auto simp: filteredItems_def derivedView_blank_def searchStage_def statusStage_def
        kindStage_def trim_Nil_iff includesStr_sublist ci_substring_def Let_def
      intro!: filter_cong)

theorem derived_view_amended_witness:
  "filteredItems [keys, wallet] (FilterKind Lost) ''  '' = [keys] \<and>
   filteredItems [keys, wallet] FilterAll ''Gym H'' = [wallet]"
  unfolding derived_view_amended by code_simp

text \<open>
  C6. The three stages commute: each of the six orders of the kind filter, the status
  visibility rule and the text search gives the derived view.
\<close>

theorem stages_commute:
  "searchStage q (statusStage f (kindStage f items)) = filteredItems items f q \<and>
   searchStage q (kindStage f (statusStage f items)) = filteredItems items f q \<and>
   statusStage f (searchStage q (kindStage f items)) = filteredItems items f q \<and>
   statusStage f (kindStage f (searchStage q items)) = filteredItems items f q \<and>
   kindStage f (searchStage q (statusStage f items)) = filteredItems items f q \<and>
   kindStage f (statusStage f (searchStage q items)) = filteredItems items f q"
  by (auto simp: filteredItems_def searchStage_def statusStage_def kindStage_def Let_def
      intro!: filter_cong)

theorem stages_commute_witness:
  "kindStage (FilterKind Found) (statusStage (FilterKind Found) (searchStage ''gym'' [keys, wallet]))
     = filteredItems [keys, wallet] (FilterKind Found) ''gym'' \<and>
   statusStage FilterAll (kindStage FilterAll (searchStage ''gym'' [keys, wallet]))
     = filteredItems [keys, wallet] FilterAll ''gym''"
  using stages_commute [of "''gym''" "FilterKind Found" "[keys, wallet]"]
        stages_commute [of "''gym''" FilterAll "[keys, wallet]"]
  by simp

section \<open>Status, kind and the fields an update writes\<close>

lemmas session_defs = posted_def markedClaimed_def retitled_def retyped_def
  handleSubmitForm_def handleStatusChange_def updateLostFoundItem_def
  addLostFoundItem_def db_update_def db_insert_def applySent_def itemToRow_def noFields_def
  configured_def cfg0_def backpackInput_def photo_def rowToItem_def

lemma applySent_type: "s_type sent = Some k \<Longrightarrow> row_type (applySent sent row) = k"
  by (simp add: applySent_def)

lemma applySent_id: "row_id (applySent sent row) = row_id row"
  by (simp add: applySent_def)

lemma db_update_type:
  assumes "s_type sent = Some k'" and "j = i \<longrightarrow> k' = k"
    and "list_all (\<lambda>r. row_id r = i \<longrightarrow> row_type r = k) table"
  shows "list_all (\<lambda>r. row_id r = i \<longrightarrow> row_type r = k) (db_update j sent table)"
  using assms by (auto simp: db_update_def list_all_iff applySent_type applySent_id)

lemma handleSubmitForm_edit_result:
  assumes "handleSubmitForm cfg n now up oc (Some item) data table = (e, t)"
  shows "(e \<noteq> Done \<and> t = table) \<or>
         (e = Done \<and> (\<exists>u. pType u = Some (inType data) \<and>
            t = db_update (itemId item) ((itemToRow u) \<lparr> s_updated_at := Some now \<rparr>) table))"
proof -
  define base where "base = noFields \<lparr> pType := Some (inType data), pTitle := Some (inTitle data),
                 pDescription := Some (inDescription data), pLocation := Some (inLocation data),
                 pContactInfo := Some (inContactInfo data) \<rparr>"
  have upd: "\<And>u r t'. updateLostFoundItem cfg now oc (itemId item) u table = (r, t') \<Longrightarrow>
      (\<exists>m. r = Inl m \<and> t' = table) \<or>
      (r = Inr () \<and> t' = db_update (itemId item) ((itemToRow u) \<lparr> s_updated_at := Some now \<rparr>) table)"
    by (cases oc) (auto simp: updateLostFoundItem_def split: if_splits)
  show ?thesis
  proof (cases "inImage data")
    case None
    obtain r t' where rt: "updateLostFoundItem cfg now oc (itemId item) base table = (r, t')"
      by (cases "updateLostFoundItem cfg now oc (itemId item) base table") auto
    from assms None rt have et: "(e, t) = (case r of Inl _ \<Rightarrow> (AlertedAndThrew, t') | Inr _ \<Rightarrow> (Done, t'))"
      by (simp add: handleSubmitForm_def base_def)
    have pb: "pType base = Some (inType data)" by (simp add: base_def)
    from upd [OF rt] show ?thesis
    proof
      assume "\<exists>m. r = Inl m \<and> t' = table"
      with et show ?thesis by auto
    next
      assume "r = Inr () \<and> t' = db_update (itemId item)
                ((itemToRow base) \<lparr> s_updated_at := Some now \<rparr>) table"
      with et pb show ?thesis by (intro disjI2) (auto intro: exI [of _ base])
    qed
  next
    case (Some img)
    show ?thesis
    proof (cases up)
      case (Inl m)
      with assms Some show ?thesis by (simp add: handleSubmitForm_def)
    next
      case (Inr url)
      obtain r t' where rt: "updateLostFoundItem cfg now oc (itemId item)
              (base \<lparr> pImageUrl := Some url \<rparr>) table = (r, t')"
        by (cases "updateLostFoundItem cfg now oc (itemId item) (base \<lparr> pImageUrl := Some url \<rparr>) table") auto
      from assms Some Inr rt have et: "(e, t) = (case r of Inl _ \<Rightarrow> (AlertedAndThrew, t') | Inr _ \<Rightarrow> (Done, t'))"
        by (simp add: handleSubmitForm_def base_def)
      have pb: "pType (base \<lparr> pImageUrl := Some url \<rparr>) = Some (inType data)"
        by (simp add: base_def)
      from upd [OF rt] show ?thesis
      proof
        assume "\<exists>m. r = Inl m \<and> t' = table"
        with et show ?thesis by auto
      next
        assume "r = Inr () \<and> t' = db_update (itemId item)
                  ((itemToRow (base \<lparr> pImageUrl := Some url \<rparr>)) \<lparr> s_updated_at := Some now \<rparr>) table"
        with et pb show ?thesis
          by (intro disjI2) (auto intro: exI [of _ "base \<lparr> pImageUrl := Some url \<rparr>"])
      qed
    qed
  qed
qed

lemma handleSubmitForm_edit_keeps:
  assumes "list_all (\<lambda>r. row_id r = i \<longrightarrow> row_type r = k) table"
    and "itemId item = i \<longrightarrow> inType data = k"
  shows "list_all (\<lambda>r. row_id r = i \<longrightarrow> row_type r = k)
           (snd (handleSubmitForm cfg n now up oc (Some item) data table))"
proof -
  obtain e t where et: "handleSubmitForm cfg n now up oc (Some item) data table = (e, t)"
    by (cases "handleSubmitForm cfg n now up oc (Some item) data table") auto
  from handleSubmitForm_edit_result [OF et] assms show ?thesis
    unfolding et by (auto intro!: db_update_type simp: itemToRow_def)
qed

lemma submitEdits_keeps:
  assumes "list_all (\<lambda>r. row_id r = i \<longrightarrow> row_type r = k) table"
    and "list_all (\<lambda>e. itemId (es_item e) = i \<longrightarrow> inType (es_data e) = k) es"
  shows "list_all (\<lambda>r. row_id r = i \<longrightarrow> row_type r = k) (submitEdits cfg es table)"
  using assms
proof (induction es arbitrary: table)
  case Nil then show ?case by simp
next
  case (Cons e es)
  from Cons.prems have "list_all (\<lambda>r. row_id r = i \<longrightarrow> row_type r = k)
     (snd (handleSubmitForm cfg [] (es_now e) (es_uploaded e) (es_outcome e)
               (Some (es_item e)) (es_data e) table))"
    by (intro handleSubmitForm_edit_keeps) simp_all
  with Cons show ?case by simp
qed

lemma edit_stores:
  assumes "fst (handleSubmitForm cfg n now up oc (Some item) data table) = Done"
  shows "list_all (\<lambda>r. row_id r = itemId item \<longrightarrow> row_type r = inType data)
           (snd (handleSubmitForm cfg n now up oc (Some item) data table))"
proof -
  obtain e t where et: "handleSubmitForm cfg n now up oc (Some item) data table = (e, t)"
    by (cases "handleSubmitForm cfg n now up oc (Some item) data table") auto
  from handleSubmitForm_edit_result [OF et] assms show ?thesis
    unfolding et by (auto simp: db_update_def list_all_iff applySent_type applySent_id itemToRow_def)
qed



text \<open>
  C1. The status is to move from active to claimed or resolved only, and no operation is
  to restore active. The code does restore it: the edit submission leaves \<open>status\<close> out
  of its updates, \<open>itemToRow\<close> sends \<open>'active'\<close> for it, and the update writes that.
  The backpack is posted (active), marked as claimed, and is active again once its title
  has been edited.
\<close>

theorem edit_submission_restores_active:
  "map (\<lambda>row. status (rowToItem row)) posted = [Active] \<and>
   map (\<lambda>row. status (rowToItem row)) markedClaimed = [Claimed] \<and>
   map (\<lambda>row. status (rowToItem row)) retitled = [Active]"
  by (simp add: session_defs)

text \<open>
  C3. An update is to write the supplied fields only, and the status change is to leave
  \<open>image_url\<close> alone. For updates that carry the status only, \<open>itemToRow\<close> sends null
  for \<open>image_url\<close>: marking the posted backpack as claimed empties the column that
  held the URL of its photo.
\<close>

theorem status_change_clears_image_url:
  "s_image_url (itemToRow (noFields \<lparr> pStatus := Some Claimed \<rparr>)) = Null \<and>
   map image_url posted = [Some photoUrl] \<and>
   map image_url markedClaimed = [None]"
  by (simp add: session_defs photoUrl_def)

text \<open>
  C2, as stated, fails: the form offers the type for editing and the edit submission
  writes it. The backpack posted as lost is stored as found after an edit submission that
  selects found.
\<close>

theorem kind_changed_by_edit:
  "map row_type posted = [Lost] \<and> map row_type retyped = [Found]"
  by (simp add: session_defs)

text \<open>
  C2, amended. An edit submission writes the type selected in the form: once it has
  completed, every stored row of the edited item holds the submitted type. So after any
  sequence of edit submissions each of which, when it is for item \<open>i\<close>, submits the type
  \<open>k\<close> that item \<open>i\<close> is stored with, item \<open>i\<close> is still stored with type \<open>k\<close>.
\<close>

theorem kind_after_edit_submissions:
  "(list_all (\<lambda>r. row_id r = i \<longrightarrow> row_type r = k) table \<and>
    list_all (\<lambda>e. itemId (es_item e) = i \<longrightarrow> inType (es_data e) = k) es \<longrightarrow>
    list_all (\<lambda>r. row_id r = i \<longrightarrow> row_type r = k) (submitEdits cfg es table)) \<and>
   (fst (handleSubmitForm cfg n now up oc (Some item) data table) = Done \<longrightarrow>
    list_all (\<lambda>r. row_id r = itemId item \<longrightarrow> row_type r = inType data)
      (snd (handleSubmitForm cfg n now up oc (Some item) data table)))"
  using submitEdits_keeps [of i k table es cfg] edit_stores [of cfg n now up oc item data table]
  by blast

theorem kind_after_edit_submissions_witness:
  "list_all (\<lambda>r. row_id r = ''7'' \<longrightarrow> row_type r = Lost) posted \<and>
   list_all (\<lambda>e. itemId (es_item e) = ''7'' \<longrightarrow> inType (es_data e) = Lost) twoEdits \<and>
   list_all (\<lambda>r. row_id r = ''7'' \<longrightarrow> row_type r = Lost) (submitEdits cfg0 twoEdits posted) \<and>
   fst (handleSubmitForm cfg0 [] ''2024-01-03T10:00:00Z'' (Inl []) WriteOk (Some backpackItem)
          (backpackInput \<lparr> inType := Found \<rparr>) posted) = Done \<and>
   list_all (\<lambda>r. row_id r = itemId backpackItem \<longrightarrow> row_type r = Found)
     (snd (handleSubmitForm cfg0 [] ''2024-01-03T10:00:00Z'' (Inl []) WriteOk (Some backpackItem)
          (backpackInput \<lparr> inType := Found \<rparr>) posted))"
proof -
  have h1: "list_all (\<lambda>r. row_id r = ''7'' \<longrightarrow> row_type r = Lost) posted"
    by (simp add: session_defs)
  have h2: "list_all (\<lambda>e. itemId (es_item e) = ''7'' \<longrightarrow> inType (es_data e) = Lost) twoEdits"
    by (simp add: twoEdits_def backpackInput_def)
  have h3: "fst (handleSubmitForm cfg0 [] ''2024-01-03T10:00:00Z'' (Inl []) WriteOk (Some backpackItem)
          (backpackInput \<lparr> inType := Found \<rparr>) posted) = Done"
    by (simp add: session_defs backpackItem_def)
  from kind_after_edit_submissions [of "''7''" Lost posted twoEdits cfg0 "[]"
      "''2024-01-03T10:00:00Z''" "Inl []" WriteOk backpackItem "backpackInput \<lparr> inType := Found \<rparr>"]
    h1 h2 h3
  show ?thesis by simp
qed

section \<open>Preview references of the form\<close>

text \<open>
  C9. Every preview the form creates is to be released once it is no longer displayed.
  Both releases are guarded by \<open>!item?.imageUrl\<close>, which is about the item being
  edited, not about the preview at hand: in the form of an item that has a hosted photo,
  the preview created for a newly picked file is still among the browser's object URLs
  after the image has been removed, and after a successful submit.
\<close>

theorem preview_not_released:
  "imagePreview pickedAgain = Some ''blob:1'' \<and> objectUrls pickedAgain = [''blob:1''] \<and>
   imagePreview (handleRemoveImage (Some backpackItem) pickedAgain) = None \<and>
   objectUrls (handleRemoveImage (Some backpackItem) pickedAgain) = [''blob:1''] \<and>
   objectUrls (handleSubmit (Some backpackItem) True pickedAgain) = [''blob:1'']"
  by (simp add: pickedAgain_def handleImageChange_def handleRemoveImage_def handleSubmit_def
        initialForm_def createPreviewUrl_def revokePreviewUrl_def itemHasImageUrl_def
        backpackItem_def photo_def photoUrl_def trim_def isWhiteSpace_def)

section \<open>Deliveries of a subscription\<close>

lemmas sub_defs = subscribed_def subscribeToLostFoundItems_def startFetch_def
  supabase_module_def createClient_def configured_def cfg0_def getLostFoundItems_def
  getLostFoundItems_try_def emptyStore_def oneRow_def

lemma run_append: "run cfg (es @ fs) s = run cfg fs (run cfg es s)"
  by (induction es arbitrary: s) auto

lemma step_delivered: "\<exists>ys. delivered (step cfg e s) = delivered s @ ys"
  by (cases e) (auto simp: startFetch_def split: option.splits sum.splits)

lemma run_delivered: "\<exists>ys. delivered (run cfg es s) = delivered s @ ys"
proof (induction es arbitrary: s)
  case Nil show ?case by simp
next
  case (Cons e es)
  obtain ys where ys: "delivered (step cfg e s) = delivered s @ ys"
    using step_delivered by blast
  obtain zs where zs: "delivered (run cfg es (step cfg e s)) = delivered (step cfg e s) @ zs"
    using Cons.IH by blast
  from ys zs show ?case by simp
qed

lemma step_initialPending:
  "initialPending s \<Longrightarrow> \<not> settles 0 e \<Longrightarrow> initialPending (step cfg e s)"
  by (cases e) (auto simp: initialPending_def startFetch_def split: list.splits option.splits sum.splits)

lemma run_initialPending:
  "initialPending s \<Longrightarrow> list_all (\<lambda>e. \<not> settles 0 e) es \<Longrightarrow> initialPending (run cfg es s)"
  by (induction es arbitrary: s) (auto simp: step_initialPending)

lemma step_not_settle: "\<not> isSettle e \<Longrightarrow> delivered (step cfg e s) = delivered s"
  by (cases e) (auto simp: startFetch_def)

lemma run_not_settle:
  "list_all (\<lambda>e. \<not> isSettle e) es \<Longrightarrow> delivered (run cfg es s) = delivered s"
  by (induction es arbitrary: s) (auto simp: step_not_settle)

lemma not_isSettle_settles: "\<not> isSettle e \<Longrightarrow> \<not> settles m e"
  by (cases e) auto

lemma settle_initial:
  assumes "initialPending s" and "getLostFoundItems cfg resp = Inr items"
  shows "delivered (step cfg (Settle 0 resp) s) = delivered s @ [(Initial, items)]"
  using assms by (auto simp: initialPending_def split: list.splits)

lemma subscribe_result:
  assumes "subscribeToLostFoundItems cfg = Inr sub"
  shows "configured cfg" and "transport sub = Push" and "listening sub"
    and "pending sub = [(0, Initial)]" and "delivered sub = []"
  using assms
  by (auto simp: subscribeToLostFoundItems_def startFetch_def supabase_module_def
      createClient_def configured_def split: if_splits)

text \<open>
  C8, as stated, fails on the push path: a change is reported while the initial load is
  under way, and the fetch it starts settles first. The callback gets the change-driven
  list before the initial one.
\<close>

theorem change_driven_delivery_first: "subscribed cfg0 [Change, Settle 1 oneRow, Settle 0 emptyStore] =
     Inr \<lparr> transport = Push, listening = True, nextFetch = 2, pending = [],
           delivered = [(ChangeDriven, [rowToItem backpackRow]), (Initial, [])] \<rparr>"
  by (simp add: sub_defs)

text \<open>
  C8, amended. A call of subscribe that returns has started the initial load and
  nothing else, and has delivered nothing yet. When the initial load settles, its
  result is delivered to the callback, also when the store holds no item; and when it
  settles before every other fetch, that delivery is the first one.
\<close>

theorem initial_delivery:
  assumes "subscribeToLostFoundItems cfg = Inr sub"
  shows "pending sub = [(0, Initial)] \<and> delivered sub = [] \<and>
     (\<exists>items. getLostFoundItems cfg resp = Inr items \<and>
        (list_all (\<lambda>e. \<not> settles 0 e) pre \<longrightarrow>
           (Initial, items) \<in> set (delivered (run cfg (pre @ Settle 0 resp # post) sub))) \<and>
        (list_all (\<lambda>e. \<not> isSettle e) pre \<longrightarrow>
           (\<exists>rest. delivered (run cfg (pre @ Settle 0 resp # post) sub) = (Initial, items) # rest)))"
proof -
  note sub = subscribe_result [OF assms]
  from sub(1) obtain items where items: "getLostFoundItems cfg resp = Inr items"
    using getLostFoundItems_configured(1) by blast
  from sub(4) have ip: "initialPending sub"
    by (simp add: initialPending_def)
  have split: "run cfg (pre @ Settle 0 resp # post) sub =
      run cfg post (step cfg (Settle 0 resp) (run cfg pre sub))"
    by (simp add: run_append)
  obtain ys where ys: "delivered (run cfg post (step cfg (Settle 0 resp) (run cfg pre sub))) =
      delivered (step cfg (Settle 0 resp) (run cfg pre sub)) @ ys"
    using run_delivered by blast
  have a: "(Initial, items) \<in> set (delivered (run cfg (pre @ Settle 0 resp # post) sub))"
    if "list_all (\<lambda>e. \<not> settles 0 e) pre"
  proof -
    from ip that have "initialPending (run cfg pre sub)"
      by (rule run_initialPending)
    from settle_initial [OF this items] ys split show ?thesis by simp
  qed
  have b: "\<exists>rest. delivered (run cfg (pre @ Settle 0 resp # post) sub) = (Initial, items) # rest"
    if ns: "list_all (\<lambda>e. \<not> isSettle e) pre"
  proof -
    from ns have "list_all (\<lambda>e. \<not> settles 0 e) pre"
      by (induction pre) (auto simp: not_isSettle_settles)
    with ip have "initialPending (run cfg pre sub)"
      by (rule run_initialPending)
    from settle_initial [OF this items] ys split run_not_settle [OF ns, of cfg sub] sub(5)
    show ?thesis by simp
  qed
  from sub(4) sub(5) items a b show ?thesis by blast
qed

theorem initial_delivery_witness:
  "subscribeToLostFoundItems cfg0 = Inr sub0 \<and>
   list_all (\<lambda>e. \<not> settles 0 e) [Change] \<and>
   list_all (\<lambda>e. \<not> isSettle e) [Change] \<and>
   getLostFoundItems cfg0 emptyStore = Inr [] \<and>
   delivered (run cfg0 ([Change] @ Settle 0 emptyStore # [Settle 1 oneRow]) sub0) =
     [(Initial, []), (ChangeDriven, [rowToItem backpackRow])]"
proof -
  have h: "subscribeToLostFoundItems cfg0 = Inr sub0"
    by (simp add: sub_defs sub0_def)
  from initial_delivery [OF h, of emptyStore "[Change]" "[Settle 1 oneRow]"] h
  show ?thesis
    by (simp add: sub_defs sub0_def)
qed

end
